theory Spec2Isabelle
  imports Main "HOL-Library.Word"
begin

section \<open>Data model of m2m\_object\_helper.h\<close>

text \<open>
  The helper sits on top of the mbed client object model (\<open>M2MObject\<close>,
  \<open>M2MObjectInstance\<close>, \<open>M2MResource\<close>, \<open>M2MResourceInstance\<close>), which is a
  library outside this repository. Pointers into that library are handles, \<open>NULL\<close> is
  \<open>None\<close>. The library itself is a parameter of every function below: a record of its entry
  points over a state \<open>'s\<close> of the object model, so that every theorem holds for each
  behaviour of the library unless a hypothesis says otherwise.
\<close>

datatype ResourceType = STRING | INTEGER | FLOAT | BOOLEAN | OPAQUE | TIME | OBJLINK

type_synonym Operation = nat
type_synonym handle = nat
type_synonym callback = nat
type_synonym int64_t = "64 word"

text \<open>\<open>DefResource\<close>: \<open>format\<close> is a pointer that may be \<open>NULL\<close>.\<close>

record DefResource =
  res_instance :: int
  res_name :: string
  res_typeString :: string
  res_type :: ResourceType
  res_observable :: bool
  res_operation :: Operation
  res_format :: "string option"

text \<open>
  \<open>DefObject\<close>: \<open>numResources\<close> is the count every loop runs to; \<open>resources\<close> holds
  the entries that the initialiser of the array \<open>resources[MAX_NUM_RESOURCES]\<close> writes
  out, in order. The array itself, with the slots the initialiser leaves out, is
  \<open>resourceArray\<close> below.
\<close>

record DefObject =
  obj_instance :: int
  obj_name :: string
  numResources :: int
  resources :: "DefResource list"

text \<open>The members of \<open>M2MObjectHelper\<close>: \<open>_defObject\<close>, \<open>_object\<close>,
  \<open>_valueUpdatedCallback\<close>, \<open>_debugOn\<close>.\<close>

record M2MObjectHelper =
  defObject :: "DefObject option"
  object :: "handle option"
  valueUpdatedCallback :: "callback option"
  debugOn :: bool

text \<open>
  The entry points of the client library that the helper calls, and the two C library
  calls of the float path. A creating call returns the new handle (or \<open>None\<close>) and the new
  state; a query reads the state. \<open>set_value_bytes\<close> is \<open>set_value(const uint8_t *, uint32_t)\<close>
  with the buffer and its length given as the byte list; \<open>set_value_int\<close> is
  \<open>set_value(int64_t)\<close>. \<open>snprintf fmt v\<close> is the whole text the format produces for the
  float \<open>v\<close> (the source's buffer of 32 bytes is modelled where it is used), \<open>sscanf\<close> the
  float read with \<open>"%f"\<close>, \<open>None\<close> when nothing is converted. Floats are a type
  parameter \<open>'f\<close>. An instance index is handed over as the \<open>int\<close> the source passes; its
  conversion to the parameter type of the library belongs to the entry point.
\<close>

record ('s, 'f) M2MClient =
  create_object :: "string \<Rightarrow> 's \<Rightarrow> handle option \<times> 's"
  create_object_instance :: "handle \<Rightarrow> int \<Rightarrow> 's \<Rightarrow> handle option \<times> 's"
  object_instance :: "handle \<Rightarrow> int \<Rightarrow> 's \<Rightarrow> handle option"
  resource :: "handle \<Rightarrow> string \<Rightarrow> 's \<Rightarrow> handle option"
  create_dynamic_resource ::
    "handle \<Rightarrow> string \<Rightarrow> string \<Rightarrow> ResourceType \<Rightarrow> bool \<Rightarrow> bool \<Rightarrow> 's \<Rightarrow> handle option \<times> 's"
  create_dynamic_resource_instance ::
    "handle \<Rightarrow> string \<Rightarrow> string \<Rightarrow> ResourceType \<Rightarrow> bool \<Rightarrow> int \<Rightarrow> 's \<Rightarrow> handle option \<times> 's"
  set_operation :: "handle \<Rightarrow> Operation \<Rightarrow> 's \<Rightarrow> 's"
  set_value_updated_function :: "handle \<Rightarrow> callback \<Rightarrow> 's \<Rightarrow> 's"
  set_execute_function :: "handle \<Rightarrow> callback \<Rightarrow> 's \<Rightarrow> bool \<times> 's"
  supports_multiple_instances :: "handle \<Rightarrow> 's \<Rightarrow> bool"
  resource_instance :: "handle \<Rightarrow> int \<Rightarrow> 's \<Rightarrow> handle option"
  set_value_int :: "handle \<Rightarrow> int64_t \<Rightarrow> 's \<Rightarrow> bool \<times> 's"
  set_value_bytes :: "handle \<Rightarrow> string \<Rightarrow> 's \<Rightarrow> bool \<times> 's"
  get_value_int :: "handle \<Rightarrow> 's \<Rightarrow> int64_t"
  get_value_string :: "handle \<Rightarrow> 's \<Rightarrow> string"
  snprintf :: "string \<Rightarrow> 'f \<Rightarrow> string"
  sscanf :: "string \<Rightarrow> 'f option"

text \<open>
  What the source does outside defined behaviour is a value of its own: dereferencing the
  \<open>NULL\<close> definition pointer, reading a local that was never assigned, handing
  \<open>set_value\<close> more bytes than the buffer holds, and (unreachable through the public
  overloads) reading the \<open>void *\<close> argument at another type than the tag says.
\<close>

datatype fault = NullDereference | UninitialisedRead | BufferOverread | BadCast

text \<open>The \<open>const void *value\<close> of the private setter, by what it points to.\<close>

datatype 'f arg = AString string | AInt64 int64_t | ABool bool | AFloat 'f

text \<open>What the private getter wrote through its \<open>void *value\<close>; \<open>ONothing\<close> when it
  wrote nothing. \<open>OFloat None\<close>: the \<open>sscanf\<close> converted nothing, the float is as it was.\<close>

datatype 'f out = OString string | OInt64 int64_t | OBool bool | OFloat "'f option" | ONothing

section \<open>The definition table\<close>

text \<open>The size of the array, as the header sets it when nothing overrides it.\<close>

definition MAX_NUM_RESOURCES :: nat where
  "MAX_NUM_RESOURCES = 8"

text \<open>
  A slot of the array that the initialiser of a table leaves out is zero-filled: instance
  0, empty name and type label, the first enumerator \<open>STRING\<close> as kind, not observable,
  no operation, \<open>NULL\<close> format.
\<close>

definition zeroResource :: DefResource where
  "zeroResource =
     \<lparr> res_instance = 0, res_name = [], res_typeString = [], res_type = STRING,
       res_observable = False, res_operation = 0, res_format = None \<rparr>"

text \<open>
  The array \<open>resources[MAX_NUM_RESOURCES]\<close>: the entries written out, then zero-filled
  slots up to the size of the array. (An initialiser with more entries than the array has
  slots does not compile.)
\<close>

definition resourceArray :: "DefObject \<Rightarrow> DefResource list" where
  "resourceArray d =
     take MAX_NUM_RESOURCES (resources d)
       @ replicate (MAX_NUM_RESOURCES - length (resources d)) zeroResource"

text \<open>
  The slots \<open>resources[0 .. numResources - 1]\<close> that the loops visit, zero-filled ones
  included. With \<open>numResources\<close> above \<open>MAX_NUM_RESOURCES\<close> a loop that gets that far
  reads past the end of the array, which the source leaves undefined; \<open>declared\<close> ends with
  the array, and what is proved of all the slots a loop visits is proved for
  \<open>numResources \<le> MAX_NUM_RESOURCES\<close>.
\<close>

definition declared :: "DefObject \<Rightarrow> DefResource list" where
  "declared d = take (nat (numResources d)) (resourceArray d)"

text \<open>
  The lookup loop of every public accessor:
  \<open>for (x = 0; x < numResources && !foundIt; x++)\<close>, stopping at the first entry whose
  name compares equal (\<open>strcmp\<close>) and whose instance equals \<open>wantedInstance\<close>.
\<close>

fun findResource :: "DefResource list \<Rightarrow> string \<Rightarrow> int \<Rightarrow> DefResource option" where
  "findResource [] resourceNumber wantedInstance = None"
| "findResource (r # rs) resourceNumber wantedInstance =
     (if resourceNumber = res_name r \<and> wantedInstance = res_instance r then Some r
      else findResource rs resourceNumber wantedInstance)"

section \<open>makeObject\<close>

text \<open>Setting the operation and, if one was given, the value-updated callback on a new
  resource or resource instance.\<close>

definition configure ::
  "('s, 'f) M2MClient \<Rightarrow> callback option \<Rightarrow> handle \<Rightarrow> Operation \<Rightarrow> 's \<Rightarrow> 's" where
  "configure api cb p op s =
     (let s1 = set_operation api p op s
      in case cb of None \<Rightarrow> s1 | Some f \<Rightarrow> set_value_updated_function api p f s1)"

text \<open>
  One round of the loop over the resources. The result is whether the round left
  \<open>allResourcesCreated\<close> alone (\<open>False\<close>: it cleared the flag), and the new state.
\<close>

definition makeResource ::
  "('s, 'f) M2MClient \<Rightarrow> callback option \<Rightarrow> handle \<Rightarrow> DefResource \<Rightarrow> 's \<Rightarrow> bool \<times> 's" where
  "makeResource api cb objectInstance r s =
     (case (if res_instance r \<noteq> - 1 \<and> resource api objectInstance (res_name r) s = None
            then (case create_dynamic_resource api objectInstance (res_name r) (res_typeString r)
                         (res_type r) (res_observable r) True s of
                    (None, s1) \<Rightarrow> (False, s1)
                  | (Some base, s1) \<Rightarrow> (True, s1))
            else (True, s)) of
        (baseOk, s1) \<Rightarrow>
          if res_instance r \<ge> 0
          then (case create_dynamic_resource_instance api objectInstance (res_name r)
                       (res_typeString r) (res_type r) (res_observable r) (res_instance r) s1 of
                  (Some resourceInstance, s2) \<Rightarrow>
                    (baseOk, configure api cb resourceInstance (res_operation r) s2)
                | (None, s2) \<Rightarrow> (False, s2))
          else (case create_dynamic_resource api objectInstance (res_name r) (res_typeString r)
                       (res_type r) (res_observable r) False s1 of
                  (Some res, s2) \<Rightarrow> (baseOk, configure api cb res (res_operation r) s2)
                | (None, s2) \<Rightarrow> (False, s2)))"

text \<open>The loop, with \<open>allResourcesCreated\<close> as the accumulator.\<close>

fun makeResources ::
  "('s, 'f) M2MClient \<Rightarrow> callback option \<Rightarrow> handle \<Rightarrow> DefResource list \<Rightarrow> bool \<Rightarrow> 's \<Rightarrow> bool \<times> 's" where
  "makeResources api cb objectInstance [] allResourcesCreated s = (allResourcesCreated, s)"
| "makeResources api cb objectInstance (r # rs) allResourcesCreated s =
     (case makeResource api cb objectInstance r s of
        (ok, s1) \<Rightarrow> makeResources api cb objectInstance rs (allResourcesCreated \<and> ok) s1)"

text \<open>
  \<open>makeObject\<close>. The local \<open>objectInstance\<close> has no initialiser and is assigned only
  once an object is there; the return statement reads it on every path. Where it was never
  assigned the returned value is \<open>Inl UninitialisedRead\<close>. The helper (its \<open>_object\<close>) and
  the state of the object model are returned on every path.
\<close>

definition makeObject ::
  "('s, 'f) M2MClient \<Rightarrow> M2MObjectHelper \<Rightarrow> 's \<Rightarrow> (fault + bool) \<times> M2MObjectHelper \<times> 's" where
  "makeObject api h s =
     (case defObject h of
        None \<Rightarrow> (Inl UninitialisedRead, h, s)
      | Some d \<Rightarrow>
          (case (case object h of
                   None \<Rightarrow> create_object api (obj_name d) s
                 | Some ob \<Rightarrow> (Some ob, s)) of
             (None, s1) \<Rightarrow> (Inl UninitialisedRead, h\<lparr>object := None\<rparr>, s1)
           | (Some ob, s1) \<Rightarrow>
               (case create_object_instance api ob (obj_instance d) s1 of
                  (None, s2) \<Rightarrow> (Inr False, h\<lparr>object := Some ob\<rparr>, s2)
                | (Some objectInstance, s2) \<Rightarrow>
                    (case makeResources api (valueUpdatedCallback h) objectInstance
                            (declared d) True s2 of
                       (allResourcesCreated, s3) \<Rightarrow>
                         (Inr allResourcesCreated, h\<lparr>object := Some ob\<rparr>, s3)))))"

section \<open>setExecuteCallback\<close>

definition setExecuteCallback ::
  "('s, 'f) M2MClient \<Rightarrow> M2MObjectHelper \<Rightarrow> callback \<Rightarrow> string \<Rightarrow> 's \<Rightarrow> (fault + bool) \<times> 's" where
  "setExecuteCallback api h cb resourceNumber s =
     (case object h of
        None \<Rightarrow> (Inr False, s)
      | Some ob \<Rightarrow>
          (case defObject h of
             None \<Rightarrow> (Inl NullDereference, s)
           | Some d \<Rightarrow>
               (case object_instance api ob (obj_instance d) s of
                  None \<Rightarrow> (Inr False, s)
                | Some objectInstance \<Rightarrow>
                    (case resource api objectInstance resourceNumber s of
                       None \<Rightarrow> (Inr False, s)
                     | Some res \<Rightarrow>
                         (case set_execute_function api res cb s of
                            (success, s1) \<Rightarrow> (Inr success, s1))))))"

section \<open>The private setter and getter\<close>

text \<open>
  The \<open>switch (type)\<close> of the private \<open>setResourceValue\<close>, on the resource or resource
  instance \<open>target\<close> that the value goes to. In the \<open>FLOAT\<close> case
  \<open>length = snprintf(buffer, sizeof(buffer), format, value)\<close> fills a buffer of 32 bytes
  with at most 31 characters and the terminator, and returns the length of the whole text;
  \<open>set_value(buffer, length)\<close> then reads \<open>length\<close> bytes from the buffer. The \<open>default\<close>
  branch of the switch is for a tag outside the enumeration and does what the
  \<open>OBJLINK\<close>/\<open>OPAQUE\<close> branch does.
\<close>

definition storeValue ::
  "('s, 'f) M2MClient \<Rightarrow> handle \<Rightarrow> 'f arg \<Rightarrow> ResourceType \<Rightarrow> string option \<Rightarrow> 's
     \<Rightarrow> (fault + bool) \<times> 's" where
  "storeValue api target v ty fmt s =
     (case ty of
        STRING \<Rightarrow>
          (case v of
             AString str \<Rightarrow> (case set_value_bytes api target str s of (b, s1) \<Rightarrow> (Inr b, s1))
           | _ \<Rightarrow> (Inl BadCast, s))
      | INTEGER \<Rightarrow>
          (case v of
             AInt64 valueInt64 \<Rightarrow>
               (case set_value_int api target valueInt64 s of (b, s1) \<Rightarrow> (Inr b, s1))
           | _ \<Rightarrow> (Inl BadCast, s))
      | TIME \<Rightarrow>
          (case v of
             AInt64 valueInt64 \<Rightarrow>
               (case set_value_int api target valueInt64 s of (b, s1) \<Rightarrow> (Inr b, s1))
           | _ \<Rightarrow> (Inl BadCast, s))
      | BOOLEAN \<Rightarrow>
          (case v of
             ABool b0 \<Rightarrow>
               (case set_value_int api target (if b0 then 1 else 0) s of (b, s1) \<Rightarrow> (Inr b, s1))
           | _ \<Rightarrow> (Inl BadCast, s))
      | FLOAT \<Rightarrow>
          (case v of
             AFloat f \<Rightarrow>
               (let text = snprintf api (case fmt of None \<Rightarrow> ''%f'' | Some fs \<Rightarrow> fs) f;
                    buffer = take 31 text @ [CHR 0x00]
                in if length text > 32 then (Inl BufferOverread, s)
                   else (case set_value_bytes api target (take (length text) buffer) s of
                           (b, s1) \<Rightarrow> (Inr b, s1)))
           | _ \<Rightarrow> (Inl BadCast, s))
      | OBJLINK \<Rightarrow> (Inr False, s)
      | OPAQUE \<Rightarrow> (Inr False, s))"

text \<open>
  The part both private functions share: \<open>resource->supports_multiple_instances()\<close>, then
  \<open>resource_instance(wantedInstance)\<close>. The result is \<open>(foundIt, resourceInstance)\<close>.
\<close>

definition findInstance ::
  "('s, 'f) M2MClient \<Rightarrow> handle \<Rightarrow> int \<Rightarrow> 's \<Rightarrow> bool \<times> handle option" where
  "findInstance api res wantedInstance s =
     (if supports_multiple_instances api res s
      then (case resource_instance api res wantedInstance s of
              Some resourceInstance \<Rightarrow> (True, Some resourceInstance)
            | None \<Rightarrow> (False, None))
      else (True, None))"

text \<open>The private \<open>setResourceValue(const void *, type, resourceNumber, wantedInstance, format)\<close>.\<close>

definition setResourceValue ::
  "('s, 'f) M2MClient \<Rightarrow> M2MObjectHelper \<Rightarrow> 'f arg \<Rightarrow> ResourceType \<Rightarrow> string \<Rightarrow> int
     \<Rightarrow> string option \<Rightarrow> 's \<Rightarrow> (fault + bool) \<times> 's" where
  "setResourceValue api h v ty resourceNumber wantedInstance fmt s =
     (case object h of
        None \<Rightarrow> (Inr False, s)
      | Some ob \<Rightarrow>
          (case defObject h of
             None \<Rightarrow> (Inl NullDereference, s)
           | Some d \<Rightarrow>
               (case object_instance api ob (obj_instance d) s of
                  None \<Rightarrow> (Inr False, s)
                | Some objectInstance \<Rightarrow>
                    (case resource api objectInstance resourceNumber s of
                       None \<Rightarrow> (Inr False, s)
                     | Some res \<Rightarrow>
                         (case findInstance api res wantedInstance s of
                            (False, resourceInstance) \<Rightarrow> (Inr False, s)
                          | (True, Some resourceInstance) \<Rightarrow>
                              storeValue api resourceInstance v ty fmt s
                          | (True, None) \<Rightarrow> storeValue api res v ty fmt s)))))"

text \<open>The \<open>switch (type)\<close> of the private \<open>getResourceValue\<close>: success and what was
  written through \<open>value\<close>.\<close>

definition loadValue ::
  "('s, 'f) M2MClient \<Rightarrow> handle \<Rightarrow> ResourceType \<Rightarrow> 's \<Rightarrow> bool \<times> 'f out" where
  "loadValue api target ty s =
     (case ty of
        STRING \<Rightarrow> (True, OString (get_value_string api target s))
      | INTEGER \<Rightarrow> (True, OInt64 (get_value_int api target s))
      | TIME \<Rightarrow> (True, OInt64 (get_value_int api target s))
      | BOOLEAN \<Rightarrow> (True, OBool (get_value_int api target s \<noteq> 0))
      | FLOAT \<Rightarrow> (True, OFloat (sscanf api (get_value_string api target s)))
      | OBJLINK \<Rightarrow> (False, ONothing)
      | OPAQUE \<Rightarrow> (False, ONothing))"

text \<open>The private \<open>getResourceValue(void *, type, resourceNumber, wantedInstance)\<close>. It
  calls queries only, so the state of the object model is as before.\<close>

definition getResourceValue ::
  "('s, 'f) M2MClient \<Rightarrow> M2MObjectHelper \<Rightarrow> ResourceType \<Rightarrow> string \<Rightarrow> int \<Rightarrow> 's
     \<Rightarrow> fault + (bool \<times> 'f out)" where
  "getResourceValue api h ty resourceNumber wantedInstance s =
     (case object h of
        None \<Rightarrow> Inr (False, ONothing)
      | Some ob \<Rightarrow>
          (case defObject h of
             None \<Rightarrow> Inl NullDereference
           | Some d \<Rightarrow>
               (case object_instance api ob (obj_instance d) s of
                  None \<Rightarrow> Inr (False, ONothing)
                | Some objectInstance \<Rightarrow>
                    (case resource api objectInstance resourceNumber s of
                       None \<Rightarrow> Inr (False, ONothing)
                     | Some res \<Rightarrow>
                         (case findInstance api res wantedInstance s of
                            (False, resourceInstance) \<Rightarrow> Inr (False, ONothing)
                          | (True, Some resourceInstance) \<Rightarrow>
                              Inr (loadValue api resourceInstance ty s)
                          | (True, None) \<Rightarrow> Inr (loadValue api res ty s))))))"

section \<open>The public setters\<close>

text \<open>
  Each public overload runs the lookup loop on \<open>_defObject\<close> without a \<open>NULL\<close> check
  (\<open>_defObject->numResources\<close> is the first thing the loop reads), then calls the private
  function when the entry found has a kind the overload accepts. Only the two string
  overloads read the entry's \<open>format\<close> and pass it on; the others leave the private
  function's \<open>format\<close> at its default \<open>NULL\<close>.
\<close>

definition setResourceValue_int64 ::
  "('s, 'f) M2MClient \<Rightarrow> M2MObjectHelper \<Rightarrow> int64_t \<Rightarrow> string \<Rightarrow> int \<Rightarrow> 's
     \<Rightarrow> (fault + bool) \<times> 's" where
  "setResourceValue_int64 api h v resourceNumber wantedInstance s =
     (case defObject h of
        None \<Rightarrow> (Inl NullDereference, s)
      | Some d \<Rightarrow>
          (case findResource (declared d) resourceNumber wantedInstance of
             None \<Rightarrow> (Inr False, s)
           | Some r \<Rightarrow>
               if res_type r = INTEGER \<or> res_type r = TIME
               then setResourceValue api h (AInt64 v) (res_type r) resourceNumber wantedInstance None s
               else (Inr False, s)))"

definition setResourceValue_float ::
  "('s, 'f) M2MClient \<Rightarrow> M2MObjectHelper \<Rightarrow> 'f \<Rightarrow> string \<Rightarrow> int \<Rightarrow> 's
     \<Rightarrow> (fault + bool) \<times> 's" where
  "setResourceValue_float api h v resourceNumber wantedInstance s =
     (case defObject h of
        None \<Rightarrow> (Inl NullDereference, s)
      | Some d \<Rightarrow>
          (case findResource (declared d) resourceNumber wantedInstance of
             None \<Rightarrow> (Inr False, s)
           | Some r \<Rightarrow>
               if res_type r = FLOAT
               then setResourceValue api h (AFloat v) (res_type r) resourceNumber wantedInstance None s
               else (Inr False, s)))"

definition setResourceValue_bool ::
  "('s, 'f) M2MClient \<Rightarrow> M2MObjectHelper \<Rightarrow> bool \<Rightarrow> string \<Rightarrow> int \<Rightarrow> 's
     \<Rightarrow> (fault + bool) \<times> 's" where
  "setResourceValue_bool api h v resourceNumber wantedInstance s =
     (case defObject h of
        None \<Rightarrow> (Inl NullDereference, s)
      | Some d \<Rightarrow>
          (case findResource (declared d) resourceNumber wantedInstance of
             None \<Rightarrow> (Inr False, s)
           | Some r \<Rightarrow>
               if res_type r = BOOLEAN
               then setResourceValue api h (ABool v) (res_type r) resourceNumber wantedInstance None s
               else (Inr False, s)))"

text \<open>The overload for \<open>const char *\<close> (it copies the text into a new \<open>String\<close> first)
  and the one for \<open>String\<close>.\<close>

definition setResourceValue_cstr ::
  "('s, 'f) M2MClient \<Rightarrow> M2MObjectHelper \<Rightarrow> string \<Rightarrow> string \<Rightarrow> int \<Rightarrow> 's
     \<Rightarrow> (fault + bool) \<times> 's" where
  "setResourceValue_cstr api h v resourceNumber wantedInstance s =
     (case defObject h of
        None \<Rightarrow> (Inl NullDereference, s)
      | Some d \<Rightarrow>
          (case findResource (declared d) resourceNumber wantedInstance of
             None \<Rightarrow> (Inr False, s)
           | Some r \<Rightarrow>
               if res_type r = STRING
               then setResourceValue api h (AString v) (res_type r) resourceNumber wantedInstance
                      (res_format r) s
               else (Inr False, s)))"

definition setResourceValue_String ::
  "('s, 'f) M2MClient \<Rightarrow> M2MObjectHelper \<Rightarrow> string \<Rightarrow> string \<Rightarrow> int \<Rightarrow> 's
     \<Rightarrow> (fault + bool) \<times> 's" where
  "setResourceValue_String api h v resourceNumber wantedInstance s =
     (case defObject h of
        None \<Rightarrow> (Inl NullDereference, s)
      | Some d \<Rightarrow>
          (case findResource (declared d) resourceNumber wantedInstance of
             None \<Rightarrow> (Inr False, s)
           | Some r \<Rightarrow>
               if res_type r = STRING
               then setResourceValue api h (AString v) (res_type r) resourceNumber wantedInstance
                      (res_format r) s
               else (Inr False, s)))"

section \<open>The public getters\<close>

text \<open>
  A public getter has the out-parameter \<open>value\<close>: the model takes what \<open>*value\<close> held
  before the call and returns what it holds after, next to the returned \<open>bool\<close>. The state of
  the object model is not changed by a getter.
\<close>

definition getResourceValue_int64 ::
  "('s, 'f) M2MClient \<Rightarrow> M2MObjectHelper \<Rightarrow> int64_t \<Rightarrow> string \<Rightarrow> int \<Rightarrow> 's
     \<Rightarrow> fault + (bool \<times> int64_t)" where
  "getResourceValue_int64 api h old resourceNumber wantedInstance s =
     (case defObject h of
        None \<Rightarrow> Inl NullDereference
      | Some d \<Rightarrow>
          (case findResource (declared d) resourceNumber wantedInstance of
             None \<Rightarrow> Inr (False, old)
           | Some r \<Rightarrow>
               if res_type r = INTEGER \<or> res_type r = TIME
               then (case getResourceValue api h (res_type r) resourceNumber wantedInstance s of
                       Inl e \<Rightarrow> Inl e
                     | Inr (success, OInt64 v) \<Rightarrow> Inr (success, v)
                     | Inr (success, _) \<Rightarrow> Inr (success, old))
               else Inr (False, old)))"

definition getResourceValue_float ::
  "('s, 'f) M2MClient \<Rightarrow> M2MObjectHelper \<Rightarrow> 'f \<Rightarrow> string \<Rightarrow> int \<Rightarrow> 's
     \<Rightarrow> fault + (bool \<times> 'f)" where
  "getResourceValue_float api h old resourceNumber wantedInstance s =
     (case defObject h of
        None \<Rightarrow> Inl NullDereference
      | Some d \<Rightarrow>
          (case findResource (declared d) resourceNumber wantedInstance of
             None \<Rightarrow> Inr (False, old)
           | Some r \<Rightarrow>
               if res_type r = FLOAT
               then (case getResourceValue api h (res_type r) resourceNumber wantedInstance s of
                       Inl e \<Rightarrow> Inl e
                     | Inr (success, OFloat (Some v)) \<Rightarrow> Inr (success, v)
                     | Inr (success, _) \<Rightarrow> Inr (success, old))
               else Inr (False, old)))"

definition getResourceValue_bool ::
  "('s, 'f) M2MClient \<Rightarrow> M2MObjectHelper \<Rightarrow> bool \<Rightarrow> string \<Rightarrow> int \<Rightarrow> 's
     \<Rightarrow> fault + (bool \<times> bool)" where
  "getResourceValue_bool api h old resourceNumber wantedInstance s =
     (case defObject h of
        None \<Rightarrow> Inl NullDereference
      | Some d \<Rightarrow>
          (case findResource (declared d) resourceNumber wantedInstance of
             None \<Rightarrow> Inr (False, old)
           | Some r \<Rightarrow>
               if res_type r = BOOLEAN
               then (case getResourceValue api h (res_type r) resourceNumber wantedInstance s of
                       Inl e \<Rightarrow> Inl e
                     | Inr (success, OBool v) \<Rightarrow> Inr (success, v)
                     | Inr (success, _) \<Rightarrow> Inr (success, old))
               else Inr (False, old)))"

definition getResourceValue_String ::
  "('s, 'f) M2MClient \<Rightarrow> M2MObjectHelper \<Rightarrow> string \<Rightarrow> string \<Rightarrow> int \<Rightarrow> 's
     \<Rightarrow> fault + (bool \<times> string)" where
  "getResourceValue_String api h old resourceNumber wantedInstance s =
     (case defObject h of
        None \<Rightarrow> Inl NullDereference
      | Some d \<Rightarrow>
          (case findResource (declared d) resourceNumber wantedInstance of
             None \<Rightarrow> Inr (False, old)
           | Some r \<Rightarrow>
               if res_type r = STRING
               then (case getResourceValue api h (res_type r) resourceNumber wantedInstance s of
                       Inl e \<Rightarrow> Inl e
                     | Inr (success, OString v) \<Rightarrow> Inr (success, v)
                     | Inr (success, _) \<Rightarrow> Inr (success, old))
               else Inr (False, old)))"

text \<open>
  The conversion at the end of the fixed-buffer overload, on success: with \<open>len > 0\<close> the
  string is cut to \<open>len - 1\<close> bytes when it is longer, copied to the start of the memory at
  \<open>value\<close> (\<open>memcpy\<close>) and followed by the terminator; with \<open>len = 0\<close> nothing is written.
  \<open>mem\<close> is the memory from \<open>value\<close> on.
\<close>

definition copyOut :: "string \<Rightarrow> nat \<Rightarrow> string \<Rightarrow> string" where
  "copyOut str len mem =
     (if len > 0
      then (let str1 = (if length str > len - 1 then take (len - 1) str else str)
            in str1 @ [CHR 0x00] @ drop (length str1 + 1) mem)
      else mem)"

text \<open>The overload \<open>getResourceValue(char *value, unsigned int len, ...)\<close>. The private
  getter fills a \<open>String\<close> that starts empty.\<close>

definition getResourceValue_buf ::
  "('s, 'f) M2MClient \<Rightarrow> M2MObjectHelper \<Rightarrow> string \<Rightarrow> nat \<Rightarrow> string \<Rightarrow> int \<Rightarrow> 's
     \<Rightarrow> fault + (bool \<times> string)" where
  "getResourceValue_buf api h mem len resourceNumber wantedInstance s =
     (case defObject h of
        None \<Rightarrow> Inl NullDereference
      | Some d \<Rightarrow>
          (case findResource (declared d) resourceNumber wantedInstance of
             None \<Rightarrow> Inr (False, mem)
           | Some r \<Rightarrow>
               if res_type r = STRING
               then (case getResourceValue api h (res_type r) resourceNumber wantedInstance s of
                       Inl e \<Rightarrow> Inl e
                     | Inr (success, written) \<Rightarrow>
                         (let str = (case written of OString v \<Rightarrow> v | _ \<Rightarrow> [])
                          in if success then Inr (True, copyOut str len mem)
                             else Inr (False, mem)))
               else Inr (False, mem)))"

section \<open>A small object model to run the helper on\<close>

text \<open>
  An in-memory stand-in for the client library, used to evaluate the helper on concrete
  inputs. Handles are handed out in order; \<open>budget\<close> is the number of allocations that
  still succeed, so that a creation can be made to fail. A resource or instance that exists
  is not created twice. Setting an empty byte string is refused. Floats of the stand-in are
  their decimal texts, and its \<open>snprintf\<close> keeps the format it was called with in front of
  the text, so that the stored bytes show which format was used.
\<close>

record store =
  budget :: nat
  fresh :: handle
  instances :: "handle \<times> int \<Rightarrow> handle option"
  resourcesOf :: "handle \<times> string \<Rightarrow> handle option"
  multiple :: "handle \<Rightarrow> bool"
  resInstances :: "handle \<times> int \<Rightarrow> handle option"
  executeFn :: "handle \<Rightarrow> callback option"
  intValue :: "handle \<Rightarrow> int64_t"
  textValue :: "handle \<Rightarrow> string"

definition alloc :: "store \<Rightarrow> handle option \<times> store" where
  "alloc s = (if budget s = 0 then (None, s)
              else (Some (fresh s), s\<lparr>budget := budget s - 1, fresh := fresh s + 1\<rparr>))"

definition t_create_object_instance :: "handle \<Rightarrow> int \<Rightarrow> store \<Rightarrow> handle option \<times> store" where
  "t_create_object_instance ob i s =
     (case instances s (ob, i) of
        Some p \<Rightarrow> (None, s)
      | None \<Rightarrow>
          (case alloc s of
             (None, s1) \<Rightarrow> (None, s1)
           | (Some p, s1) \<Rightarrow> (Some p, s1\<lparr>instances := (instances s1)((ob, i) \<mapsto> p)\<rparr>)))"

definition t_create_dynamic_resource ::
  "handle \<Rightarrow> string \<Rightarrow> string \<Rightarrow> ResourceType \<Rightarrow> bool \<Rightarrow> bool \<Rightarrow> store \<Rightarrow> handle option \<times> store" where
  "t_create_dynamic_resource oi n ts ty obs multi s =
     (case resourcesOf s (oi, n) of
        Some p \<Rightarrow> (None, s)
      | None \<Rightarrow>
          (case alloc s of
             (None, s1) \<Rightarrow> (None, s1)
           | (Some p, s1) \<Rightarrow>
               (Some p, s1\<lparr>resourcesOf := (resourcesOf s1)((oi, n) \<mapsto> p),
                            multiple := (multiple s1)(p := multi)\<rparr>)))"

definition t_create_dynamic_resource_instance ::
  "handle \<Rightarrow> string \<Rightarrow> string \<Rightarrow> ResourceType \<Rightarrow> bool \<Rightarrow> int \<Rightarrow> store \<Rightarrow> handle option \<times> store" where
  "t_create_dynamic_resource_instance oi n ts ty obs i s =
     (case resourcesOf s (oi, n) of
        None \<Rightarrow> (None, s)
      | Some res \<Rightarrow>
          (case resInstances s (res, i) of
             Some p \<Rightarrow> (None, s)
           | None \<Rightarrow>
               (case alloc s of
                  (None, s1) \<Rightarrow> (None, s1)
                | (Some p, s1) \<Rightarrow>
                    (Some p, s1\<lparr>resInstances := (resInstances s1)((res, i) \<mapsto> p)\<rparr>))))"

definition t_set_value_bytes :: "handle \<Rightarrow> string \<Rightarrow> store \<Rightarrow> bool \<times> store" where
  "t_set_value_bytes p bs s =
     (if bs = [] then (False, s) else (True, s\<lparr>textValue := (textValue s)(p := bs)\<rparr>))"

definition testClient :: "(store, string) M2MClient" where
  "testClient =
     \<lparr> create_object = (\<lambda>n s. alloc s),
       create_object_instance = t_create_object_instance,
       object_instance = (\<lambda>ob i s. instances s (ob, i)),
       resource = (\<lambda>oi n s. resourcesOf s (oi, n)),
       create_dynamic_resource = t_create_dynamic_resource,
       create_dynamic_resource_instance = t_create_dynamic_resource_instance,
       set_operation = (\<lambda>p op s. s),
       set_value_updated_function = (\<lambda>p f s. s),
       set_execute_function = (\<lambda>p f s. (True, s\<lparr>executeFn := (executeFn s)(p := Some f)\<rparr>)),
       supports_multiple_instances = (\<lambda>p s. multiple s p),
       resource_instance = (\<lambda>res i s. resInstances s (res, i)),
       set_value_int = (\<lambda>p v s. (True, s\<lparr>intValue := (intValue s)(p := v)\<rparr>)),
       set_value_bytes = t_set_value_bytes,
       get_value_int = (\<lambda>p s. intValue s p),
       get_value_string = (\<lambda>p s. textValue s p),
       snprintf = (\<lambda>fmt v. fmt @ '' '' @ v),
       sscanf = (\<lambda>str. if str = [] then None else Some str) \<rparr>"

text \<open>The empty object model with room for \<open>n\<close> allocations.\<close>

definition emptyStore :: "nat \<Rightarrow> store" where
  "emptyStore n =
     \<lparr> budget = n, fresh = 1, instances = (\<lambda>k. None), resourcesOf = (\<lambda>k. None),
       multiple = (\<lambda>p. False), resInstances = (\<lambda>k. None), executeFn = (\<lambda>p. None),
       intValue = (\<lambda>p. 0), textValue = (\<lambda>p. []) \<rparr>"

text \<open>
  Definition tables to run on. \<open>switchDef\<close> is the example of the header (object "3312"
  with the Boolean resource "5850"), with an Integer, a String and a Float resource beside
  it, the Float one declared with the format \<open>"%.2f"\<close>. \<open>timerDef\<close> has a multi-instance
  resource with instances 0 and 1.
\<close>

definition mkRes :: "int \<Rightarrow> string \<Rightarrow> string \<Rightarrow> ResourceType \<Rightarrow> string option \<Rightarrow> DefResource" where
  "mkRes i n ts ty fmt =
     \<lparr> res_instance = i, res_name = n, res_typeString = ts, res_type = ty,
       res_observable = False, res_operation = 1, res_format = fmt \<rparr>"

definition switchDef :: DefObject where
  "switchDef =
     \<lparr> obj_instance = 0, obj_name = ''3312'', numResources = 4,
       resources = [mkRes (- 1) ''5850'' ''on/off'' BOOLEAN None,
                    mkRes (- 1) ''5851'' ''dimmer'' INTEGER None,
                    mkRes (- 1) ''5750'' ''label'' STRING None,
                    mkRes (- 1) ''5700'' ''level'' FLOAT (Some ''%.2f'')] \<rparr>"

definition timerDef :: DefObject where
  "timerDef =
     \<lparr> obj_instance = 0, obj_name = ''3340'', numResources = 2,
       resources = [mkRes 0 ''5521'' ''delay'' INTEGER None,
                    mkRes 1 ''5521'' ''delay'' INTEGER None] \<rparr>"

definition mkHelper :: "DefObject option \<Rightarrow> handle option \<Rightarrow> M2MObjectHelper" where
  "mkHelper d ob = \<lparr> defObject = d, object = ob, valueUpdatedCallback = None, debugOn = False \<rparr>"

section \<open>Notions the statements use\<close>

text \<open>
  For the loop of \<open>makeObject\<close>: the outcome of every round in order, each run on the state
  the round before left, and the state after the last round. Neither stops at a round that
  failed.
\<close>

fun creationResults ::
  "('s, 'f) M2MClient \<Rightarrow> callback option \<Rightarrow> handle \<Rightarrow> DefResource list \<Rightarrow> 's \<Rightarrow> bool list" where
  "creationResults api cb oi [] s = []"
| "creationResults api cb oi (r # rs) s =
     fst (makeResource api cb oi r s) # creationResults api cb oi rs (snd (makeResource api cb oi r s))"

fun afterResources ::
  "('s, 'f) M2MClient \<Rightarrow> callback option \<Rightarrow> handle \<Rightarrow> DefResource list \<Rightarrow> 's \<Rightarrow> 's" where
  "afterResources api cb oi [] s = s"
| "afterResources api cb oi (r # rs) s =
     afterResources api cb oi rs (snd (makeResource api cb oi r s))"

text \<open>
  The object \<open>makeObject\<close> works on: the handle given at construction, or else the result
  of \<open>create_object\<close>.
\<close>

definition obtainObject ::
  "('s, 'f) M2MClient \<Rightarrow> M2MObjectHelper \<Rightarrow> DefObject \<Rightarrow> 's \<Rightarrow> handle option \<times> 's" where
  "obtainObject api h d s =
     (case object h of None \<Rightarrow> create_object api (obj_name d) s | Some ob \<Rightarrow> (Some ob, s))"

text \<open>
  The resource or resource instance in the object model that an accessor call for
  \<open>(resourceNumber, wantedInstance)\<close> reads or writes, \<open>None\<close> when there is none.
\<close>

definition resolve ::
  "('s, 'f) M2MClient \<Rightarrow> M2MObjectHelper \<Rightarrow> string \<Rightarrow> int \<Rightarrow> 's \<Rightarrow> handle option" where
  "resolve api h resourceNumber wantedInstance s =
     (case object h of
        None \<Rightarrow> None
      | Some ob \<Rightarrow>
          (case defObject h of
             None \<Rightarrow> None
           | Some d \<Rightarrow>
               (case object_instance api ob (obj_instance d) s of
                  None \<Rightarrow> None
                | Some oi \<Rightarrow>
                    (case resource api oi resourceNumber s of
                       None \<Rightarrow> None
                     | Some res \<Rightarrow>
                         if supports_multiple_instances api res s
                         then resource_instance api res wantedInstance s
                         else Some res))))"

text \<open>
  What the accessor theorems ask of the client library. \<open>keeps_lookups\<close>: a state change
  leaves the four queries the accessors navigate by as they were. \<open>stores_values\<close>: a
  \<open>set_value\<close> that reports success keeps the lookups, and the matching \<open>get_value\<close> on the
  same resource then returns what was set. \<open>same_values\<close>: every stored value reads as
  before. \<open>refusal_keeps_values\<close>: a \<open>set_value\<close> that reports failure has changed no stored
  value.
\<close>

definition keeps_lookups :: "('s, 'f) M2MClient \<Rightarrow> 's \<Rightarrow> 's \<Rightarrow> bool" where
  "keeps_lookups api s s' \<longleftrightarrow>
     (\<forall>ob i. object_instance api ob i s' = object_instance api ob i s) \<and>
     (\<forall>oi n. resource api oi n s' = resource api oi n s) \<and>
     (\<forall>res. supports_multiple_instances api res s' = supports_multiple_instances api res s) \<and>
     (\<forall>res i. resource_instance api res i s' = resource_instance api res i s)"

definition stores_values :: "('s, 'f) M2MClient \<Rightarrow> bool" where
  "stores_values api \<longleftrightarrow>
     (\<forall>p v s s'. set_value_int api p v s = (True, s') \<longrightarrow>
        keeps_lookups api s s' \<and> get_value_int api p s' = v) \<and>
     (\<forall>p bs s s'. set_value_bytes api p bs s = (True, s') \<longrightarrow>
        keeps_lookups api s s' \<and> get_value_string api p s' = bs)"

definition same_values :: "('s, 'f) M2MClient \<Rightarrow> 's \<Rightarrow> 's \<Rightarrow> bool" where
  "same_values api s s' \<longleftrightarrow>
     (\<forall>p. get_value_int api p s' = get_value_int api p s \<and>
          get_value_string api p s' = get_value_string api p s)"

definition refusal_keeps_values :: "('s, 'f) M2MClient \<Rightarrow> bool" where
  "refusal_keeps_values api \<longleftrightarrow>
     (\<forall>p v s s'. set_value_int api p v s = (False, s') \<longrightarrow> same_values api s s') \<and>
     (\<forall>p bs s s'. set_value_bytes api p bs s = (False, s') \<longrightarrow> same_values api s s')"

text \<open>The objects of the two tables, built on the stand-in with room to spare.\<close>

definition switchHelper :: M2MObjectHelper where
  "switchHelper = fst (snd (makeObject testClient (mkHelper (Some switchDef) None) (emptyStore 10)))"

definition switchStore :: store where
  "switchStore = snd (snd (makeObject testClient (mkHelper (Some switchDef) None) (emptyStore 10)))"

definition timerHelper :: M2MObjectHelper where
  "timerHelper = fst (snd (makeObject testClient (mkHelper (Some timerDef) None) (emptyStore 10)))"

definition timerStore :: store where
  "timerStore = snd (snd (makeObject testClient (mkHelper (Some timerDef) None) (emptyStore 10)))"

text \<open>The switch object after its String resource "5750" was set to \<open>"kitchen"\<close>.\<close>

definition namedSwitchStore :: store where
  "namedSwitchStore =
     snd (setResourceValue_String testClient switchHelper ''kitchen'' ''5750'' (- 1) switchStore)"

text \<open>The timer object built with room for four allocations only: the object, its instance,
  the base resource and instance 0 are there, instance 1 could not be created.\<close>

definition partTimerStore :: store where
  "partTimerStore = snd (snd (makeObject testClient (mkHelper (Some timerDef) None) (emptyStore 4)))"

section \<open>Running the stand-in\<close>

lemmas stand_in = testClient_def alloc_def t_create_object_instance_def
  t_create_dynamic_resource_def t_create_dynamic_resource_instance_def t_set_value_bytes_def
  emptyStore_def mkRes_def mkHelper_def
lemmas declared_run = declared_def resourceArray_def MAX_NUM_RESOURCES_def
lemmas run_make = makeObject_def obtainObject_def declared_run makeResource_def configure_def
lemmas setters = setResourceValue_int64_def setResourceValue_float_def setResourceValue_bool_def
  setResourceValue_cstr_def setResourceValue_String_def
lemmas getters = getResourceValue_int64_def getResourceValue_float_def getResourceValue_bool_def
  getResourceValue_String_def getResourceValue_buf_def
lemmas run_set = setters setResourceValue_def findInstance_def storeValue_def
lemmas run_get = getters getResourceValue_def findInstance_def loadValue_def

text \<open>What \<open>makeObject\<close> leaves behind on the stand-in, for the three runs the examples use.\<close>

lemma switchHelper_eq: "switchHelper = mkHelper (Some switchDef) (Some 1)"
  by (simp add: switchHelper_def run_make switchDef_def stand_in)

lemma timerHelper_eq: "timerHelper = mkHelper (Some timerDef) (Some 1)"
  by (simp add: timerHelper_def run_make timerDef_def stand_in)

lemma switchStore_eq:
  "switchStore =
     \<lparr> budget = 4, fresh = 7, instances = (\<lambda>k. None)((1, 0) \<mapsto> 2),
       resourcesOf = (\<lambda>k. None)((2, ''5850'') \<mapsto> 3, (2, ''5851'') \<mapsto> 4, (2, ''5750'') \<mapsto> 5,
                        (2, ''5700'') \<mapsto> 6),
       multiple = (\<lambda>p. False)(3 := False, 4 := False, 5 := False, 6 := False),
       resInstances = (\<lambda>k. None), executeFn = (\<lambda>p. None),
       intValue = (\<lambda>p. 0), textValue = (\<lambda>p. []) \<rparr>"
  by (simp add: switchStore_def run_make switchDef_def stand_in eval_nat_numeral)

lemma timerStore_eq:
  "timerStore =
     \<lparr> budget = 5, fresh = 6, instances = (\<lambda>k. None)((1, 0) \<mapsto> 2),
       resourcesOf = (\<lambda>k. None)((2, ''5521'') \<mapsto> 3),
       multiple = (\<lambda>p. False)(3 := True),
       resInstances = (\<lambda>k. None)((3, 0) \<mapsto> 4, (3, 1) \<mapsto> 5), executeFn = (\<lambda>p. None),
       intValue = (\<lambda>p. 0), textValue = (\<lambda>p. []) \<rparr>"
  by (simp add: timerStore_def run_make timerDef_def stand_in eval_nat_numeral)

lemma partTimerStore_eq:
  "partTimerStore =
     \<lparr> budget = 0, fresh = 5, instances = (\<lambda>k. None)((1, 0) \<mapsto> 2),
       resourcesOf = (\<lambda>k. None)((2, ''5521'') \<mapsto> 3),
       multiple = (\<lambda>p. False)(3 := True),
       resInstances = (\<lambda>k. None)((3, 0) \<mapsto> 4), executeFn = (\<lambda>p. None),
       intValue = (\<lambda>p. 0), textValue = (\<lambda>p. []) \<rparr>"
  by (simp add: partTimerStore_def run_make timerDef_def stand_in eval_nat_numeral)

lemmas on_switch = switchHelper_eq switchStore_eq switchDef_def declared_run stand_in
lemmas on_timer = timerHelper_eq timerStore_eq timerDef_def declared_run stand_in

text \<open>The stand-in keeps the two contracts the accessor theorems ask of a client library.\<close>

lemma testClient_stores_values: "stores_values testClient"
  by (auto simp: stores_values_def keeps_lookups_def testClient_def t_set_value_bytes_def
           split: if_splits)

lemma testClient_refusal: "refusal_keeps_values testClient"
  by (auto simp: refusal_keeps_values_def same_values_def testClient_def t_set_value_bytes_def
           split: if_splits)

section \<open>The builder\<close>

text \<open>The loop never stops early: its flag is the conjunction over all rounds, its final
  state the state after the last round.\<close>

lemma makeResources_eq:
  "makeResources api cb oi rs acc s =
     (acc \<and> list_all (\<lambda>created. created) (creationResults api cb oi rs s),
      afterResources api cb oi rs s)"
  by (induction rs arbitrary: acc s) (auto split: prod.splits)

lemma length_creationResults: "length (creationResults api cb oi rs s) = length rs"
  by (induction rs arbitrary: s) auto

text \<open>A round on a single-instance entry succeeds exactly when its one
  \<open>create_dynamic_resource\<close> returns a resource.\<close>

lemma makeResource_single:
  assumes "res_instance r = - 1"
  shows "fst (makeResource api cb oi r s) \<longleftrightarrow>
           fst (create_dynamic_resource api oi (res_name r) (res_typeString r) (res_type r)
                  (res_observable r) False s) \<noteq> None"
  using assms by (auto simp: makeResource_def split: prod.splits option.splits)

text \<open>A round on an entry with an instance index at or above zero succeeds exactly when the
  base resource was there or could be created, and the instance could be created.\<close>

lemma makeResource_instance:
  assumes "0 \<le> res_instance r"
    and "resource api oi (res_name r) s = None"
    and "create_dynamic_resource api oi (res_name r) (res_typeString r) (res_type r)
           (res_observable r) True s = (base, s1)"
  shows "fst (makeResource api cb oi r s) \<longleftrightarrow>
           base \<noteq> None \<and>
           fst (create_dynamic_resource_instance api oi (res_name r) (res_typeString r)
                  (res_type r) (res_observable r) (res_instance r) s1) \<noteq> None"
  using assms by (auto simp: makeResource_def split: prod.splits option.splits)

text \<open>
  Where the definition is there, its count is within the array and an object is at hand
  (given at construction, or created now), \<open>makeObject\<close> returns a proper boolean, and
  that boolean is true exactly when \<open>create_object_instance\<close> returned an instance and
  every round of the loop over the declared resources created what it had to. The loop runs
  one round per declared resource whatever the rounds before it did: there are as many
  outcomes as declared resources, and the state returned is the state after the last round.
\<close>

lemma makeObject_with_object:
  assumes "defObject h = Some d"
    and "numResources d \<le> int MAX_NUM_RESOURCES"
    and "obtainObject api h d s = (Some ob, s1)"
    and "create_object_instance api ob (obj_instance d) s1 = (oi, s2)"
  shows "makeObject api h s =
           (Inr (case oi of
                   None \<Rightarrow> False
                 | Some p \<Rightarrow> list_all (\<lambda>created. created)
                     (creationResults api (valueUpdatedCallback h) p (declared d) s2)),
            h\<lparr>object := Some ob\<rparr>,
            case oi of
              None \<Rightarrow> s2
            | Some p \<Rightarrow> afterResources api (valueUpdatedCallback h) p (declared d) s2)
         \<and> (case oi of
              None \<Rightarrow> True
            | Some p \<Rightarrow> length (creationResults api (valueUpdatedCallback h) p (declared d) s2)
                         = length (declared d))"
  using assms
  by (auto simp: makeObject_def obtainObject_def makeResources_eq length_creationResults
           split: option.splits prod.splits)

text \<open>
  On the stand-in with room for four allocations the object, its instance and the first two
  resources of the switch are created, the third and the fourth are not: the result is
  failure, and the second resource is in the object model all the same. With room for ten
  the result is success.
\<close>

lemma makeObject_with_object_example:
  "defObject (mkHelper (Some switchDef) None) = Some switchDef
   \<and> numResources switchDef \<le> int MAX_NUM_RESOURCES
   \<and> obtainObject testClient (mkHelper (Some switchDef) None) switchDef (emptyStore 4)
       = (Some 1, (emptyStore 4)\<lparr>budget := 3, fresh := 2\<rparr>)
   \<and> fst (create_object_instance testClient 1 (obj_instance switchDef)
            ((emptyStore 4)\<lparr>budget := 3, fresh := 2\<rparr>)) = Some 2
   \<and> creationResults testClient None 2 (declared switchDef)
        (snd (create_object_instance testClient 1 (obj_instance switchDef)
            ((emptyStore 4)\<lparr>budget := 3, fresh := 2\<rparr>))) = [True, True, False, False]
   \<and> fst (makeObject testClient (mkHelper (Some switchDef) None) (emptyStore 4)) = Inr False
   \<and> resourcesOf (snd (snd (makeObject testClient (mkHelper (Some switchDef) None) (emptyStore 4))))
        (2, ''5851'') = Some 4
   \<and> fst (makeObject testClient (mkHelper (Some switchDef) None) (emptyStore 10)) = Inr True"
proof -
  let ?h = "mkHelper (Some switchDef) None"
  let ?s1 = "(emptyStore 4)\<lparr>budget := 3, fresh := 2\<rparr>"
  let ?ci = "create_object_instance testClient 1 (obj_instance switchDef) ?s1"
  have d: "defObject ?h = Some switchDef"
    by (simp add: mkHelper_def)
  have n: "numResources switchDef \<le> int MAX_NUM_RESOURCES"
    by (simp add: switchDef_def MAX_NUM_RESOURCES_def)
  have ob: "obtainObject testClient ?h switchDef (emptyStore 4) = (Some 1, ?s1)"
    by (simp add: obtainObject_def stand_in)
  have ci: "?ci = (fst ?ci, snd ?ci)"
    by simp
  have f: "fst ?ci = Some 2"
    by (simp add: switchDef_def stand_in)
  have cr: "creationResults testClient None 2 (declared switchDef) (snd ?ci)
              = [True, True, False, False]"
    by (simp add: switchDef_def declared_run makeResource_def configure_def stand_in)
  have vc: "valueUpdatedCallback ?h = None"
    by (simp add: mkHelper_def)
  from makeObject_with_object [OF d n ob ci] f cr vc
  have r: "fst (makeObject testClient ?h (emptyStore 4)) = Inr False"
    by simp
  have st: "resourcesOf (snd (snd (makeObject testClient ?h (emptyStore 4)))) (2, ''5851'') = Some 4"
    by (simp add: run_make switchDef_def stand_in)
  have full: "fst (makeObject testClient ?h (emptyStore 10)) = Inr True"
    by (simp add: run_make switchDef_def stand_in)
  from d n ob f cr r st full show ?thesis by simp
qed

text \<open>
  Claim C1. The claim gives the result of \<open>makeObject\<close> on every call: success exactly
  when the object instance and every declared resource were created. The code does not
  return that on the calls that never reach \<open>create_object_instance\<close>. On the stand-in
  with no room for the timer's object, no object instance and no resource is created (the
  object model is still empty), so the claim's result is failure; what the code returns is
  the value of \<open>objectInstance\<close>, a local without initialiser that this path never
  assigns, compared with \<open>NULL\<close>, and \<open>allResourcesCreated\<close> is still true. The result
  is not the boolean \<open>false\<close>.
\<close>

theorem makeObject_result_unassigned:
  "create_object testClient (obj_name timerDef) (emptyStore 0) = (None, emptyStore 0)
   \<and> snd (snd (makeObject testClient (mkHelper (Some timerDef) None) (emptyStore 0)))
       = emptyStore 0
   \<and> instances (emptyStore 0) (1, obj_instance timerDef) = None
   \<and> fst (makeObject testClient (mkHelper (Some timerDef) None) (emptyStore 0))
       = Inl UninitialisedRead
   \<and> fst (makeObject testClient (mkHelper (Some timerDef) None) (emptyStore 0)) \<noteq> Inr False"
  by (simp add: makeObject_def stand_in)

text \<open>
  No handle was given at construction and \<open>create_object\<close> returns \<open>NULL\<close>: nothing
  further is called (the state is the one \<open>create_object\<close> left), and the return statement
  reads \<open>objectInstance\<close>, which was never assigned.
\<close>

lemma makeObject_object_creation_fails:
  assumes "defObject h = Some d" and "object h = None"
    and "create_object api (obj_name d) s = (None, s1)"
  shows "makeObject api h s = (Inl UninitialisedRead, h, s1)"
  using assms by (simp add: makeObject_def)

text \<open>
  Claim C8. On the stand-in with no room for the object, \<open>create_object\<close> fails and
  \<open>makeObject\<close> creates nothing further, but what it returns is the value of the
  unassigned \<open>objectInstance\<close> compared with \<open>NULL\<close>, not the failure the claim states.
\<close>

theorem makeObject_without_object:
  "create_object testClient (obj_name switchDef) (emptyStore 0) = (None, emptyStore 0)
   \<and> makeObject testClient (mkHelper (Some switchDef) None) (emptyStore 0)
     = (Inl UninitialisedRead, mkHelper (Some switchDef) None, emptyStore 0)"
  by (simp add: makeObject_def stand_in)

section \<open>The execute callback\<close>

text \<open>
  Claim C10. With the definition there, \<open>setExecuteCallback\<close> returns a proper boolean; it
  is true exactly when the helper has an object, the object has the instance of the
  definition's index, that instance has a resource of the name, and
  \<open>set_execute_function\<close> on it reports success. The table of resources plays no part:
  replacing \<open>numResources\<close> and \<open>resources\<close> by anything leaves the result as it is.
  Only the definition's \<open>instance\<close> is read.
\<close>

theorem setExecuteCallback_ignores_table:
  assumes "defObject h = Some d"
  shows "((\<exists>s1. setExecuteCallback api h cb resourceNumber s = (Inr True, s1)) \<longleftrightarrow>
           (\<exists>ob oi res. object h = Some ob
              \<and> object_instance api ob (obj_instance d) s = Some oi
              \<and> resource api oi resourceNumber s = Some res
              \<and> fst (set_execute_function api res cb s)))
       \<and> (\<exists>b s1. setExecuteCallback api h cb resourceNumber s = (Inr b, s1))
       \<and> setExecuteCallback api (h\<lparr>defObject := Some (d\<lparr>numResources := k, resources := rs\<rparr>)\<rparr>)
           cb resourceNumber s
         = setExecuteCallback api h cb resourceNumber s"
  using assms
  by (auto simp: setExecuteCallback_def split: option.splits prod.splits)

text \<open>
  On the switch: with an empty table the callback is still set on resource "5850", which
  the object model has; on "5999", which the object model does not have, it is not.
\<close>

theorem setExecuteCallback_ignores_table_witness:
  "defObject switchHelper = Some switchDef
   \<and> findResource (declared (switchDef\<lparr>numResources := 0, resources := []\<rparr>)) ''5850'' (- 1) = None
   \<and> fst (setExecuteCallback testClient
            (switchHelper\<lparr>defObject := Some (switchDef\<lparr>numResources := 0, resources := []\<rparr>)\<rparr>)
            9 ''5850'' switchStore) = Inr True
   \<and> fst (setExecuteCallback testClient switchHelper 9 ''5999'' switchStore) = Inr False"
proof -
  have d: "defObject switchHelper = Some switchDef"
    by (simp add: switchHelper_eq mkHelper_def)
  have n: "findResource (declared (switchDef\<lparr>numResources := 0, resources := []\<rparr>)) ''5850'' (- 1)
             = None"
    by (simp add: declared_run)
  have e: "fst (setExecuteCallback testClient switchHelper 9 ''5850'' switchStore) = Inr True"
    by (simp add: setExecuteCallback_def on_switch)
  have f: "fst (setExecuteCallback testClient switchHelper 9 ''5999'' switchStore) = Inr False"
    by (simp add: setExecuteCallback_def on_switch)
  from setExecuteCallback_ignores_table [OF d, where api = testClient and cb = 9
      and resourceNumber = "''5850''" and s = switchStore and k = 0 and rs = "[]"] e
  have "fst (setExecuteCallback testClient
            (switchHelper\<lparr>defObject := Some (switchDef\<lparr>numResources := 0, resources := []\<rparr>)\<rparr>)
            9 ''5850'' switchStore) = Inr True"
    by simp
  with d n f show ?thesis by simp
qed

section \<open>The accessors\<close>

subsection \<open>Lookup in the table\<close>

lemma findResource_None:
  "findResource rs n i = None \<longleftrightarrow> (\<forall>r \<in> set rs. \<not> (res_name r = n \<and> res_instance r = i))"
  by (induction rs) auto

text \<open>
  A slot that the initialiser leaves out is an entry like any other once \<open>numResources\<close>
  reaches it: with the count of the switch's table raised to 5, the lookup of the empty name
  with instance 0 finds the zero-filled fifth slot.
\<close>

lemma zero_slot_is_visited:
  "findResource (declared (switchDef\<lparr>numResources := 5\<rparr>)) [] 0 = Some zeroResource
   \<and> findResource (declared switchDef) [] 0 = None"
  by (simp add: switchDef_def declared_run mkRes_def zeroResource_def)

text \<open>
  Claim C4. With the definition there and its count within the array: when none of the
  slots \<open>resources[0 .. numResources - 1]\<close> has both the requested name and the requested
  instance (\<open>- 1\<close> for a single-instance resource, the default of \<open>wantedInstance\<close>), each
  of the five setters and five getters returns failure; the object model and the caller's
  \<open>value\<close> are as before.
\<close>

theorem undeclared_pair_fails:
  assumes "defObject h = Some d"
    and "numResources d \<le> int MAX_NUM_RESOURCES"
    and "\<forall>r \<in> set (declared d). \<not> (res_name r = resourceNumber \<and> res_instance r = wantedInstance)"
  shows "setResourceValue_int64 api h vi resourceNumber wantedInstance s = (Inr False, s)
       \<and> setResourceValue_float api h vf resourceNumber wantedInstance s = (Inr False, s)
       \<and> setResourceValue_bool api h vb resourceNumber wantedInstance s = (Inr False, s)
       \<and> setResourceValue_cstr api h vs resourceNumber wantedInstance s = (Inr False, s)
       \<and> setResourceValue_String api h vs resourceNumber wantedInstance s = (Inr False, s)
       \<and> getResourceValue_int64 api h vi resourceNumber wantedInstance s = Inr (False, vi)
       \<and> getResourceValue_float api h vf resourceNumber wantedInstance s = Inr (False, vf)
       \<and> getResourceValue_bool api h vb resourceNumber wantedInstance s = Inr (False, vb)
       \<and> getResourceValue_String api h vs resourceNumber wantedInstance s = Inr (False, vs)
       \<and> getResourceValue_buf api h mem len resourceNumber wantedInstance s = Inr (False, mem)"
proof -
  from assms(3) have "findResource (declared d) resourceNumber wantedInstance = None"
    by (simp add: findResource_None)
  with assms(1) show ?thesis
    by (simp add: setters getters)
qed

text \<open>
  On the switch: "5850" is declared single-instance, so asking for its instance 0 fails,
  and so does any accessor for the name "9999", although the object model has "5850". With
  the count raised to 5 the zero-filled fifth slot is among the slots visited, and a name
  that neither it nor the four written entries carry still fails.
\<close>

theorem undeclared_pair_fails_witness:
  "findResource (declared switchDef) ''5850'' 0 = None
   \<and> numResources switchDef \<le> int MAX_NUM_RESOURCES
   \<and> resource testClient 2 ''5850'' switchStore = Some 3
   \<and> setResourceValue_bool testClient switchHelper True ''5850'' 0 switchStore = (Inr False, switchStore)
   \<and> getResourceValue_bool testClient switchHelper True ''5850'' 0 switchStore = Inr (False, True)
   \<and> setResourceValue_int64 testClient switchHelper 5 ''9999'' (- 1) switchStore = (Inr False, switchStore)
   \<and> getResourceValue_buf testClient switchHelper ''abcd'' 4 ''9999'' (- 1) switchStore
       = Inr (False, ''abcd'')
   \<and> length (declared (switchDef\<lparr>numResources := 5\<rparr>)) = 5
   \<and> getResourceValue_String testClient
        (switchHelper\<lparr>defObject := Some (switchDef\<lparr>numResources := 5\<rparr>)\<rparr>) ''x'' ''9999'' 0
        switchStore = Inr (False, ''x'')"
proof -
  let ?d5 = "switchDef\<lparr>numResources := 5\<rparr>"
  have d: "defObject switchHelper = Some switchDef"
    by (simp add: switchHelper_eq mkHelper_def)
  have d5: "defObject (switchHelper\<lparr>defObject := Some ?d5\<rparr>) = Some ?d5"
    by simp
  have m: "numResources switchDef \<le> int MAX_NUM_RESOURCES"
    by (simp add: switchDef_def MAX_NUM_RESOURCES_def)
  have m5: "numResources ?d5 \<le> int MAX_NUM_RESOURCES"
    by (simp add: MAX_NUM_RESOURCES_def)
  have a: "\<forall>r \<in> set (declared switchDef). \<not> (res_name r = ''5850'' \<and> res_instance r = 0)"
    by (simp add: switchDef_def declared_run mkRes_def)
  have b: "\<forall>r \<in> set (declared switchDef). \<not> (res_name r = ''9999'' \<and> res_instance r = - 1)"
    by (simp add: switchDef_def declared_run mkRes_def)
  have c: "\<forall>r \<in> set (declared ?d5). \<not> (res_name r = ''9999'' \<and> res_instance r = 0)"
    by (simp add: switchDef_def declared_run mkRes_def zeroResource_def)
  have l: "length (declared ?d5) = 5"
    by (simp add: switchDef_def declared_run)
  have n: "findResource (declared switchDef) ''5850'' 0 = None"
    by (simp add: switchDef_def declared_run mkRes_def)
  have r: "resource testClient 2 ''5850'' switchStore = Some 3"
    by (simp add: switchStore_eq testClient_def)
  from undeclared_pair_fails [OF d m a, where api = testClient and s = switchStore and vb = True]
    undeclared_pair_fails [OF d m b, where api = testClient and s = switchStore and vi = 5
      and mem = "''abcd''" and len = 4]
    undeclared_pair_fails [OF d5 m5 c, where api = testClient and s = switchStore and vs = "''x''"]
    n m r l
  show ?thesis by simp
qed

subsection \<open>Resolution in the object model\<close>

text \<open>Both private functions go to the resource or resource instance that \<open>resolve\<close> names.\<close>

lemma setResourceValue_resolve:
  "defObject h = Some d \<Longrightarrow>
   setResourceValue api h v ty n i fmt s =
     (case resolve api h n i s of
        None \<Rightarrow> (Inr False, s)
      | Some target \<Rightarrow> storeValue api target v ty fmt s)"
  by (simp add: setResourceValue_def resolve_def findInstance_def split: option.splits)

lemma getResourceValue_resolve:
  "defObject h = Some d \<Longrightarrow>
   getResourceValue api h ty n i s =
     (case resolve api h n i s of
        None \<Rightarrow> Inr (False, ONothing)
      | Some target \<Rightarrow> Inr (loadValue api target ty s))"
  by (simp add: getResourceValue_def resolve_def findInstance_def split: option.splits)

lemma resolve_keeps: "keeps_lookups api s s' \<Longrightarrow> resolve api h n i s' = resolve api h n i s"
  by (simp add: resolve_def keeps_lookups_def split: option.splits)

text \<open>
  Claim C7. The call reaches a resource of the object model that supports multiple
  instances, and \<open>resource_instance(wantedInstance)\<close> returns \<open>NULL\<close>: each setter and
  getter returns failure, the object model is as before (nothing was written), and the
  caller's \<open>value\<close> holds what it held (nothing was read, no default is returned).
\<close>

theorem missing_instance_fails:
  assumes "defObject h = Some d"
    and "object h = Some ob"
    and "object_instance api ob (obj_instance d) s = Some oi"
    and "resource api oi resourceNumber s = Some res"
    and "supports_multiple_instances api res s"
    and "resource_instance api res wantedInstance s = None"
  shows "setResourceValue_int64 api h vi resourceNumber wantedInstance s = (Inr False, s)
       \<and> setResourceValue_float api h vf resourceNumber wantedInstance s = (Inr False, s)
       \<and> setResourceValue_bool api h vb resourceNumber wantedInstance s = (Inr False, s)
       \<and> setResourceValue_cstr api h vs resourceNumber wantedInstance s = (Inr False, s)
       \<and> setResourceValue_String api h vs resourceNumber wantedInstance s = (Inr False, s)
       \<and> getResourceValue_int64 api h vi resourceNumber wantedInstance s = Inr (False, vi)
       \<and> getResourceValue_float api h vf resourceNumber wantedInstance s = Inr (False, vf)
       \<and> getResourceValue_bool api h vb resourceNumber wantedInstance s = Inr (False, vb)
       \<and> getResourceValue_String api h vs resourceNumber wantedInstance s = Inr (False, vs)
       \<and> getResourceValue_buf api h mem len resourceNumber wantedInstance s = Inr (False, mem)"
proof -
  from assms have "resolve api h resourceNumber wantedInstance s = None"
    by (simp add: resolve_def)
  with assms(1) show ?thesis
    by (simp add: setters getters setResourceValue_resolve getResourceValue_resolve
             split: option.splits)
qed

text \<open>
  On the timer built with room for four allocations, instance 1 of "5521" is declared in
  the table and of the right kind, but is not in the object model: set and get fail, and
  the caller's 5 is not replaced by the 0 the stand-in holds for an unset value.
\<close>

theorem missing_instance_fails_witness:
  "findResource (declared timerDef) ''5521'' 1 = Some (mkRes 1 ''5521'' ''delay'' INTEGER None)
   \<and> supports_multiple_instances testClient 3 partTimerStore
   \<and> resource_instance testClient 3 1 partTimerStore = None
   \<and> setResourceValue_int64 testClient timerHelper 5 ''5521'' 1 partTimerStore
       = (Inr False, partTimerStore)
   \<and> getResourceValue_int64 testClient timerHelper 5 ''5521'' 1 partTimerStore = Inr (False, 5)"
proof -
  have d: "defObject timerHelper = Some timerDef" and ob: "object timerHelper = Some 1"
    by (simp_all add: timerHelper_eq mkHelper_def)
  have oi: "object_instance testClient 1 (obj_instance timerDef) partTimerStore = Some 2"
    by (simp add: partTimerStore_eq testClient_def timerDef_def)
  have res: "resource testClient 2 ''5521'' partTimerStore = Some 3"
    by (simp add: partTimerStore_eq testClient_def)
  have mu: "supports_multiple_instances testClient 3 partTimerStore"
    by (simp add: partTimerStore_eq testClient_def)
  have ri: "resource_instance testClient 3 1 partTimerStore = None"
    by (simp add: partTimerStore_eq testClient_def)
  have f: "findResource (declared timerDef) ''5521'' 1
             = Some (mkRes 1 ''5521'' ''delay'' INTEGER None)"
    by (simp add: timerDef_def declared_run mkRes_def)
  from missing_instance_fails [OF d ob oi res mu ri, where vi = 5] f mu ri
  show ?thesis by simp
qed

subsection \<open>Set, then get\<close>

text \<open>What a successful store leaves for the load of the same kind, given a client library
  that stores values.\<close>

lemma storeValue_int_get:
  assumes "stores_values api" and "ty = INTEGER \<or> ty = TIME"
    and "storeValue api t (AInt64 v) ty fmt s = (Inr True, s')"
  shows "keeps_lookups api s s' \<and> loadValue api t ty s' = (True, OInt64 v)"
  using assms
  by (auto simp: storeValue_def loadValue_def stores_values_def split: prod.splits)

lemma storeValue_bool_get:
  assumes "stores_values api"
    and "storeValue api t (ABool v) BOOLEAN fmt s = (Inr True, s')"
  shows "keeps_lookups api s s' \<and> loadValue api t BOOLEAN s' = (True, OBool v)"
  using assms
  by (auto simp: storeValue_def loadValue_def stores_values_def split: prod.splits if_splits)

lemma storeValue_string_get:
  assumes "stores_values api"
    and "storeValue api t (AString v) STRING fmt s = (Inr True, s')"
  shows "keeps_lookups api s s' \<and> loadValue api t STRING s' = (True, OString v)"
  using assms
  by (auto simp: storeValue_def loadValue_def stores_values_def split: prod.splits)

text \<open>The private pair: the getter resolves, in the state the setter left, the target the
  setter wrote to.\<close>

lemma private_roundtrip:
  assumes d: "defObject h = Some d"
    and st: "\<And>t. storeValue api t v ty fmt s = (Inr True, s') \<Longrightarrow>
               keeps_lookups api s s' \<and> loadValue api t ty s' = (True, w)"
    and set: "setResourceValue api h v ty n i fmt s = (Inr True, s')"
  shows "getResourceValue api h ty n i s' = Inr (True, w)"
proof (cases "resolve api h n i s")
  case None
  with d set show ?thesis by (simp add: setResourceValue_resolve)
next
  case (Some t)
  with d set have "storeValue api t v ty fmt s = (Inr True, s')"
    by (simp add: setResourceValue_resolve)
  from st [OF this] have k: "keeps_lookups api s s'" and l: "loadValue api t ty s' = (True, w)"
    by simp_all
  from resolve_keeps [OF k] Some have "resolve api h n i s' = Some t"
    by simp
  with l d show ?thesis
    by (simp add: getResourceValue_resolve)
qed

text \<open>
  Claim C2. Over a client library that stores values (a \<open>set_value\<close> reporting success
  leaves the object tree as it was, and the matching \<open>get_value\<close> on the same resource
  then returns what was set): when a setter for a 64-bit integer (kinds Integer and Time), a
  boolean or a string (either string overload) returns success, the getter of the same
  type for the same resource name and instance, run on the state the setter left, returns
  success and exactly the value that was set, for every value of the type.
\<close>

theorem set_then_get:
  assumes "stores_values api"
  shows "(setResourceValue_int64 api h vi n i s = (Inr True, s') \<longrightarrow>
            getResourceValue_int64 api h oi n i s' = Inr (True, vi))
       \<and> (setResourceValue_bool api h vb n i s = (Inr True, s') \<longrightarrow>
            getResourceValue_bool api h ob n i s' = Inr (True, vb))
       \<and> (setResourceValue_String api h vs n i s = (Inr True, s') \<longrightarrow>
            getResourceValue_String api h os n i s' = Inr (True, vs))
       \<and> (setResourceValue_cstr api h vs n i s = (Inr True, s') \<longrightarrow>
            getResourceValue_String api h os n i s' = Inr (True, vs))"
proof (intro conjI impI)
  assume "setResourceValue_int64 api h vi n i s = (Inr True, s')"
  then obtain d r where d: "defObject h = Some d"
    and r: "findResource (declared d) n i = Some r" "res_type r = INTEGER \<or> res_type r = TIME"
    and p: "setResourceValue api h (AInt64 vi) (res_type r) n i None s = (Inr True, s')"
    by (auto simp: setResourceValue_int64_def split: option.splits if_splits)
  have "getResourceValue api h (res_type r) n i s' = Inr (True, OInt64 vi)"
    using private_roundtrip [OF d _ p] storeValue_int_get [OF assms r(2)] by blast
  with d r show "getResourceValue_int64 api h oi n i s' = Inr (True, vi)"
    by (simp add: getResourceValue_int64_def)
next
  assume "setResourceValue_bool api h vb n i s = (Inr True, s')"
  then obtain d r where d: "defObject h = Some d"
    and r: "findResource (declared d) n i = Some r" "res_type r = BOOLEAN"
    and p: "setResourceValue api h (ABool vb) BOOLEAN n i None s = (Inr True, s')"
    by (auto simp: setResourceValue_bool_def split: option.splits if_splits)
  have "getResourceValue api h BOOLEAN n i s' = Inr (True, OBool vb)"
    using private_roundtrip [OF d _ p] storeValue_bool_get [OF assms] by blast
  with d r show "getResourceValue_bool api h ob n i s' = Inr (True, vb)"
    by (simp add: getResourceValue_bool_def)
next
  assume "setResourceValue_String api h vs n i s = (Inr True, s')"
  then obtain d r where d: "defObject h = Some d"
    and r: "findResource (declared d) n i = Some r" "res_type r = STRING"
    and p: "setResourceValue api h (AString vs) STRING n i (res_format r) s = (Inr True, s')"
    by (auto simp: setResourceValue_String_def split: option.splits if_splits)
  have "getResourceValue api h STRING n i s' = Inr (True, OString vs)"
    using private_roundtrip [OF d _ p] storeValue_string_get [OF assms] by blast
  with d r show "getResourceValue_String api h os n i s' = Inr (True, vs)"
    by (simp add: getResourceValue_String_def)
next
  assume "setResourceValue_cstr api h vs n i s = (Inr True, s')"
  then obtain d r where d: "defObject h = Some d"
    and r: "findResource (declared d) n i = Some r" "res_type r = STRING"
    and p: "setResourceValue api h (AString vs) STRING n i (res_format r) s = (Inr True, s')"
    by (auto simp: setResourceValue_cstr_def split: option.splits if_splits)
  have "getResourceValue api h STRING n i s' = Inr (True, OString vs)"
    using private_roundtrip [OF d _ p] storeValue_string_get [OF assms] by blast
  with d r show "getResourceValue_String api h os n i s' = Inr (True, vs)"
    by (simp add: getResourceValue_String_def)
qed

text \<open>
  On the stand-in: 42 through the Integer resource "5851", \<open>True\<close> through the Boolean
  "5850", a text through the String "5750", and \<open>- 7\<close> through instance 1 of the
  multi-instance "5521" of the timer.
\<close>

theorem set_then_get_witness:
  "stores_values testClient
   \<and> fst (setResourceValue_int64 testClient switchHelper 42 ''5851'' (- 1) switchStore) = Inr True
   \<and> getResourceValue_int64 testClient switchHelper 0 ''5851'' (- 1)
        (snd (setResourceValue_int64 testClient switchHelper 42 ''5851'' (- 1) switchStore))
       = Inr (True, 42)
   \<and> fst (setResourceValue_bool testClient switchHelper True ''5850'' (- 1) switchStore) = Inr True
   \<and> getResourceValue_bool testClient switchHelper False ''5850'' (- 1)
        (snd (setResourceValue_bool testClient switchHelper True ''5850'' (- 1) switchStore))
       = Inr (True, True)
   \<and> fst (setResourceValue_String testClient switchHelper ''kitchen'' ''5750'' (- 1) switchStore)
       = Inr True
   \<and> getResourceValue_String testClient switchHelper [] ''5750'' (- 1)
        (snd (setResourceValue_String testClient switchHelper ''kitchen'' ''5750'' (- 1) switchStore))
       = Inr (True, ''kitchen'')
   \<and> fst (setResourceValue_int64 testClient timerHelper (- 7) ''5521'' 1 timerStore) = Inr True
   \<and> getResourceValue_int64 testClient timerHelper 0 ''5521'' 1
        (snd (setResourceValue_int64 testClient timerHelper (- 7) ''5521'' 1 timerStore))
       = Inr (True, - 7)"
proof -
  let ?si = "setResourceValue_int64 testClient switchHelper 42 ''5851'' (- 1) switchStore"
  let ?sb = "setResourceValue_bool testClient switchHelper True ''5850'' (- 1) switchStore"
  let ?ss = "setResourceValue_String testClient switchHelper ''kitchen'' ''5750'' (- 1) switchStore"
  let ?st = "setResourceValue_int64 testClient timerHelper (- 7) ''5521'' 1 timerStore"
  note law = testClient_stores_values
  have i: "?si = (Inr True, snd ?si)"
    by (simp add: run_set on_switch)
  have b: "?sb = (Inr True, snd ?sb)"
    by (simp add: run_set on_switch)
  have s: "?ss = (Inr True, snd ?ss)"
    by (simp add: run_set on_switch)
  have t: "?st = (Inr True, snd ?st)"
    by (simp add: run_set on_timer)
  from set_then_get [OF law, where h = switchHelper and vi = 42 and n = "''5851''" and i = "- 1"
      and s = switchStore and s' = "snd ?si" and oi = 0] i
  have gi: "getResourceValue_int64 testClient switchHelper 0 ''5851'' (- 1) (snd ?si)
              = Inr (True, 42)"
    by blast
  from set_then_get [OF law, where h = switchHelper and vb = True and n = "''5850''" and i = "- 1"
      and s = switchStore and s' = "snd ?sb" and ob = False] b
  have gb: "getResourceValue_bool testClient switchHelper False ''5850'' (- 1) (snd ?sb)
              = Inr (True, True)"
    by blast
  from set_then_get [OF law, where h = switchHelper and vs = "''kitchen''" and n = "''5750''"
      and i = "- 1" and s = switchStore and s' = "snd ?ss" and os = "[]"] s
  have gs: "getResourceValue_String testClient switchHelper [] ''5750'' (- 1) (snd ?ss)
              = Inr (True, ''kitchen'')"
    by blast
  from set_then_get [OF law, where h = timerHelper and vi = "- 7" and n = "''5521''" and i = 1
      and s = timerStore and s' = "snd ?st" and oi = 0] t
  have gt: "getResourceValue_int64 testClient timerHelper 0 ''5521'' 1 (snd ?st)
              = Inr (True, - 7)"
    by blast
  from law i b s t gi gb gs gt show ?thesis
    by (metis fst_conv)
qed

subsection \<open>Rejected and failed calls\<close>

lemma same_values_refl: "same_values api s s"
  by (simp add: same_values_def)

lemma storeValue_refused:
  assumes "refusal_keeps_values api" and "storeValue api t v ty fmt s = (Inr False, s')"
  shows "same_values api s s'"
proof (cases ty)
  case FLOAT
  with assms show ?thesis
    by (cases v)
       (auto simp: storeValue_def refusal_keeps_values_def same_values_refl Let_def
             split: prod.splits if_splits)
qed (use assms in \<open>cases v; auto simp: storeValue_def refusal_keeps_values_def same_values_refl
       split: prod.splits\<close>)+

lemma setResourceValue_refused:
  assumes "refusal_keeps_values api" and "defObject h = Some d"
    and "setResourceValue api h v ty n i fmt s = (Inr False, s')"
  shows "same_values api s s'"
  using assms storeValue_refused [OF assms(1)]
  by (auto simp: setResourceValue_resolve same_values_refl split: option.splits)

text \<open>A call of an overload that the declared kind does not admit returns failure before
  anything of the object model is touched.\<close>

lemma kind_mismatch_rejected:
  assumes "defObject h = Some d" and "findResource (declared d) n i = Some r"
  shows "(res_type r \<noteq> INTEGER \<and> res_type r \<noteq> TIME \<longrightarrow>
               setResourceValue_int64 api h vi n i s = (Inr False, s)
               \<and> getResourceValue_int64 api h vi n i s = Inr (False, vi))
          \<and> (res_type r \<noteq> FLOAT \<longrightarrow>
               setResourceValue_float api h vf n i s = (Inr False, s)
               \<and> getResourceValue_float api h vf n i s = Inr (False, vf))
          \<and> (res_type r \<noteq> BOOLEAN \<longrightarrow>
               setResourceValue_bool api h vb n i s = (Inr False, s)
               \<and> getResourceValue_bool api h vb n i s = Inr (False, vb))
          \<and> (res_type r \<noteq> STRING \<longrightarrow>
               setResourceValue_cstr api h vs n i s = (Inr False, s)
               \<and> setResourceValue_String api h vs n i s = (Inr False, s)
               \<and> getResourceValue_String api h vs n i s = Inr (False, vs)
               \<and> getResourceValue_buf api h mem len n i s = Inr (False, mem))"
  using assms by (simp add: setters getters)

text \<open>
  Claim C3. With the definition there: a setter or getter whose type is not the one the
  declared kind of the entry found admits (the 64-bit integer overloads admit Integer and
  Time, the others their own kind) returns failure, with the object model and the caller's
  \<open>value\<close> as before. And over a client library whose \<open>set_value\<close>, when it reports
  failure, has changed no stored value, every setter call that returns failure leaves every
  stored value of the object model as it was.
\<close>

theorem mismatch_rejected_failed_set_keeps_values:
  assumes d: "defObject h = Some d" and k: "refusal_keeps_values api"
  shows "(findResource (declared d) n i = Some r \<longrightarrow>
            (res_type r \<noteq> INTEGER \<and> res_type r \<noteq> TIME \<longrightarrow>
               setResourceValue_int64 api h vi n i s = (Inr False, s)
               \<and> getResourceValue_int64 api h vi n i s = Inr (False, vi))
          \<and> (res_type r \<noteq> FLOAT \<longrightarrow>
               setResourceValue_float api h vf n i s = (Inr False, s)
               \<and> getResourceValue_float api h vf n i s = Inr (False, vf))
          \<and> (res_type r \<noteq> BOOLEAN \<longrightarrow>
               setResourceValue_bool api h vb n i s = (Inr False, s)
               \<and> getResourceValue_bool api h vb n i s = Inr (False, vb))
          \<and> (res_type r \<noteq> STRING \<longrightarrow>
               setResourceValue_cstr api h vs n i s = (Inr False, s)
               \<and> setResourceValue_String api h vs n i s = (Inr False, s)
               \<and> getResourceValue_String api h vs n i s = Inr (False, vs)
               \<and> getResourceValue_buf api h mem len n i s = Inr (False, mem)))
       \<and> (setResourceValue_int64 api h vi n i s = (Inr False, s') \<longrightarrow> same_values api s s')
       \<and> (setResourceValue_float api h vf n i s = (Inr False, s') \<longrightarrow> same_values api s s')
       \<and> (setResourceValue_bool api h vb n i s = (Inr False, s') \<longrightarrow> same_values api s s')
       \<and> (setResourceValue_cstr api h vs n i s = (Inr False, s') \<longrightarrow> same_values api s s')
       \<and> (setResourceValue_String api h vs n i s = (Inr False, s') \<longrightarrow> same_values api s s')"
proof -
  note priv = setResourceValue_refused [OF k d]
  have i: "setResourceValue_int64 api h vi n i s = (Inr False, s') \<longrightarrow> same_values api s s'"
    using d priv
    by (auto simp: setResourceValue_int64_def same_values_refl split: option.splits if_splits)
  have f: "setResourceValue_float api h vf n i s = (Inr False, s') \<longrightarrow> same_values api s s'"
    using d priv
    by (auto simp: setResourceValue_float_def same_values_refl split: option.splits if_splits)
  have b: "setResourceValue_bool api h vb n i s = (Inr False, s') \<longrightarrow> same_values api s s'"
    using d priv
    by (auto simp: setResourceValue_bool_def same_values_refl split: option.splits if_splits)
  have c: "setResourceValue_cstr api h vs n i s = (Inr False, s') \<longrightarrow> same_values api s s'"
    using d priv
    by (auto simp: setResourceValue_cstr_def same_values_refl split: option.splits if_splits)
  have g: "setResourceValue_String api h vs n i s = (Inr False, s') \<longrightarrow> same_values api s s'"
    using d priv
    by (auto simp: setResourceValue_String_def same_values_refl split: option.splits if_splits)
  from kind_mismatch_rejected [OF d, where n = n and i = i and r = r and api = api and s = s
      and vi = vi and vf = vf and vb = vb and vs = vs and mem = mem and len = len] i f b c g
  show ?thesis by blast
qed

text \<open>
  On the switch: the Boolean accessors against the Integer resource "5851" fail and change
  nothing; setting the String resource "5750" to the empty text is refused by the stand-in,
  and the text set before is still there.
\<close>

theorem mismatch_rejected_failed_set_keeps_values_witness:
  "refusal_keeps_values testClient
   \<and> findResource (declared switchDef) ''5851'' (- 1)
       = Some (mkRes (- 1) ''5851'' ''dimmer'' INTEGER None)
   \<and> setResourceValue_bool testClient switchHelper True ''5851'' (- 1) switchStore
       = (Inr False, switchStore)
   \<and> getResourceValue_bool testClient switchHelper True ''5851'' (- 1) switchStore
       = Inr (False, True)
   \<and> fst (setResourceValue_String testClient switchHelper [] ''5750'' (- 1) namedSwitchStore)
       = Inr False
   \<and> same_values testClient namedSwitchStore
        (snd (setResourceValue_String testClient switchHelper [] ''5750'' (- 1) namedSwitchStore))
   \<and> get_value_string testClient 5
        (snd (setResourceValue_String testClient switchHelper [] ''5750'' (- 1) namedSwitchStore))
       = ''kitchen''"
proof -
  let ?set = "setResourceValue_String testClient switchHelper [] ''5750'' (- 1) namedSwitchStore"
  let ?r = "mkRes (- 1) ''5851'' ''dimmer'' INTEGER None"
  have d: "defObject switchHelper = Some switchDef"
    by (simp add: switchHelper_eq mkHelper_def)
  note k = testClient_refusal
  have f: "findResource (declared switchDef) ''5851'' (- 1) = Some ?r"
    by (simp add: switchDef_def declared_run mkRes_def)
  have t: "res_type ?r \<noteq> BOOLEAN"
    by (simp add: mkRes_def)
  have e: "?set = (Inr False, snd ?set)"
    by (simp add: namedSwitchStore_def run_set on_switch)
  have g: "get_value_string testClient 5 namedSwitchStore = ''kitchen''"
    by (simp add: namedSwitchStore_def run_set on_switch)
  note inst1 = mismatch_rejected_failed_set_keeps_values [OF d k,
      where n = "''5851''" and i = "- 1" and r = ?r and s = switchStore and vb = True]
  note inst2 = mismatch_rejected_failed_set_keeps_values [OF d k,
      where n = "''5750''" and i = "- 1" and s = namedSwitchStore and vs = "[]" and s' = "snd ?set"]
  from inst1 f t
  have m: "setResourceValue_bool testClient switchHelper True ''5851'' (- 1) switchStore
       = (Inr False, switchStore)
     \<and> getResourceValue_bool testClient switchHelper True ''5851'' (- 1) switchStore
       = Inr (False, True)"
    by blast
  from inst2 e have sv: "same_values testClient namedSwitchStore (snd ?set)"
    by blast
  from sv g have "get_value_string testClient 5 (snd ?set) = ''kitchen''"
    by (simp add: same_values_def)
  with k f m e sv show ?thesis
    by (metis fst_conv)
qed

subsection \<open>The fixed-buffer getter\<close>

lemma copyOut_props:
  assumes "0 < len"
  shows "min (length str) (len - 1) < len
    \<and> take (min (length str) (len - 1)) (copyOut str len mem) = take (min (length str) (len - 1)) str
    \<and> copyOut str len mem ! min (length str) (len - 1) = CHR 0x00
    \<and> drop (Suc (min (length str) (len - 1))) (copyOut str len mem)
           = drop (Suc (min (length str) (len - 1))) mem"
  using assms
  by (auto simp: copyOut_def Let_def min_def nth_append)

lemma copyOut_length: "len \<le> length mem \<Longrightarrow> length (copyOut str len mem) = length mem"
  by (auto simp: copyOut_def Let_def)

text \<open>The fixed-buffer getter succeeds exactly when the \<open>String\<close> getter does, whatever
  \<open>len\<close> is, and on success leaves \<open>copyOut\<close> of the stored string in the memory.\<close>

lemma buf_as_String:
  "getResourceValue_buf api h mem len n i s =
     (case getResourceValue_String api h [] n i s of
        Inl e \<Rightarrow> Inl e
      | Inr (success, str) \<Rightarrow> Inr (success, if success then copyOut str len mem else mem))"
  by (auto simp: getResourceValue_buf_def getResourceValue_String_def getResourceValue_resolve
        loadValue_def split: option.splits sum.splits prod.splits out.splits)

text \<open>
  Claim C5. The getter for \<open>char *value\<close> with capacity \<open>len\<close> succeeds or fails as the
  \<open>String\<close> getter does, whatever \<open>len\<close> is (a string that is too long is cut, the call
  does not fail for it), and on success the memory at \<open>value\<close> is \<open>copyOut\<close> of the
  stored string. For \<open>len > 0\<close> and \<open>k\<close> the smaller of the string's length and
  \<open>len - 1\<close>: the first \<open>k\<close> bytes are the first \<open>k\<close> bytes of the string, byte \<open>k\<close> is
  the terminator, \<open>k < len\<close>, and every byte after index \<open>k\<close> is as it was, so nothing at or
  past index \<open>len\<close> is written. For \<open>len = 0\<close> nothing is written at all. A buffer of at
  least \<open>len\<close> bytes keeps its length.
\<close>

theorem fixed_buffer_get:
  "getResourceValue_buf api h mem len n i s =
     (case getResourceValue_String api h [] n i s of
        Inl e \<Rightarrow> Inl e
      | Inr (success, str) \<Rightarrow> Inr (success, if success then copyOut str len mem else mem))
   \<and> (0 < len \<longrightarrow>
        min (length str) (len - 1) < len
        \<and> take (min (length str) (len - 1)) (copyOut str len mem)
            = take (min (length str) (len - 1)) str
        \<and> copyOut str len mem ! min (length str) (len - 1) = CHR 0x00
        \<and> drop (Suc (min (length str) (len - 1))) (copyOut str len mem)
            = drop (Suc (min (length str) (len - 1))) mem)
   \<and> copyOut str 0 mem = mem
   \<and> (len \<le> length mem \<longrightarrow> length (copyOut str len mem) = length mem)"
  using buf_as_String [of api h mem len n i s]
    copyOut_props [where len = len and str = str and mem = mem]
    copyOut_length [where len = len and str = str and mem = mem]
  by (simp add: copyOut_def)

text \<open>
  On the switch with "kitchen" stored: a buffer of capacity 4 receives "kit" and the
  terminator, one of capacity 9 the whole text and the terminator, and with capacity 0 the
  memory is untouched; the bytes behind are as they were.
\<close>

theorem fixed_buffer_get_witness:
  "getResourceValue_String testClient switchHelper [] ''5750'' (- 1) namedSwitchStore
     = Inr (True, ''kitchen'')
   \<and> getResourceValue_buf testClient switchHelper ''0123456789'' 4 ''5750'' (- 1) namedSwitchStore
     = Inr (True, [CHR ''k'', CHR ''i'', CHR ''t'', CHR 0x00] @ ''456789'')
   \<and> getResourceValue_buf testClient switchHelper ''0123456789'' 9 ''5750'' (- 1) namedSwitchStore
     = Inr (True, ''kitchen'' @ [CHR 0x00] @ ''89'')
   \<and> getResourceValue_buf testClient switchHelper ''0123456789'' 0 ''5750'' (- 1) namedSwitchStore
     = Inr (True, ''0123456789'')"
proof -
  have g: "getResourceValue_String testClient switchHelper [] ''5750'' (- 1) namedSwitchStore
     = Inr (True, ''kitchen'')"
    by (simp add: namedSwitchStore_def run_set run_get on_switch)
  note inst = fixed_buffer_get [where api = testClient and h = switchHelper
      and mem = "''0123456789''" and n = "''5750''" and i = "- 1" and s = namedSwitchStore
      and str = "''kitchen''"]
  from inst [where len = 4] inst [where len = 9] inst [where len = 0] g
  show ?thesis
    by (simp add: copyOut_def)
qed

subsection \<open>Floats\<close>

text \<open>
  The float setter hands the private function no format, so the text stored is always the
  one \<open>"%f"\<close> produces: replacing \<open>snprintf\<close> by one that ignores its format argument and
  uses \<open>"%f"\<close> changes nothing, whatever \<open>format\<close> the table declares.
\<close>

lemma float_format_never_used:
  "setResourceValue_float (api\<lparr>snprintf := \<lambda>fmt. snprintf api ''%f''\<rparr>) h v n i s
   = setResourceValue_float api h v n i s"
  by (simp add: setResourceValue_float_def setResourceValue_def findInstance_def storeValue_def
           Let_def split: option.splits)

text \<open>A text of more than 32 characters makes the private setter pass \<open>set_value\<close> a
  length beyond the 32 bytes of its buffer.\<close>

lemma float_text_too_long:
  assumes "32 < length (snprintf api (case fmt of None \<Rightarrow> ''%f'' | Some fs \<Rightarrow> fs) v)"
  shows "storeValue api target (AFloat v) FLOAT fmt s = (Inl BufferOverread, s)"
  using assms by (simp add: storeValue_def Let_def)

text \<open>
  Claim C6. The Float resource "5700" of the switch is declared with the format
  \<open>"%.2f"\<close>. Setting it stores the text that \<open>snprintf\<close> produces with \<open>"%f"\<close>, not the
  text of the declared format: the stand-in's \<open>snprintf\<close> puts the format it was called
  with in front of the text, and the stored bytes begin with \<open>%f\<close>. What the getter then
  parses is therefore not the value formatted with the declared format string.
\<close>

theorem float_set_uses_default_format:
  "findResource (declared switchDef) ''5700'' (- 1)
     = Some (mkRes (- 1) ''5700'' ''level'' FLOAT (Some ''%.2f''))
   \<and> setResourceValue_float testClient switchHelper ''1.234'' ''5700'' (- 1) switchStore
     = (Inr True, switchStore\<lparr>textValue := (textValue switchStore)(6 := ''%f 1.234'')\<rparr>)
   \<and> getResourceValue_float testClient switchHelper [] ''5700'' (- 1)
        (switchStore\<lparr>textValue := (textValue switchStore)(6 := ''%f 1.234'')\<rparr>)
     = Inr (True, ''%f 1.234'')
   \<and> snprintf testClient ''%f'' ''1.234'' = ''%f 1.234''
   \<and> snprintf testClient ''%.2f'' ''1.234'' = ''%.2f 1.234''"
  by (simp add: run_set run_get on_switch)

subsection \<open>No definition\<close>

text \<open>
  With \<open>_defObject\<close> \<open>NULL\<close>, \<open>makeObject\<close> takes its guarded path and then reads the
  unassigned \<open>objectInstance\<close>; every public setter and getter reads
  \<open>_defObject->numResources\<close> at once.
\<close>

lemma null_definition_general:
  "makeObject api (h\<lparr>defObject := None\<rparr>) s = (Inl UninitialisedRead, h\<lparr>defObject := None\<rparr>, s)
   \<and> setResourceValue_int64 api (h\<lparr>defObject := None\<rparr>) vi n i s = (Inl NullDereference, s)
   \<and> setResourceValue_float api (h\<lparr>defObject := None\<rparr>) vf n i s = (Inl NullDereference, s)
   \<and> setResourceValue_bool api (h\<lparr>defObject := None\<rparr>) vb n i s = (Inl NullDereference, s)
   \<and> setResourceValue_cstr api (h\<lparr>defObject := None\<rparr>) vs n i s = (Inl NullDereference, s)
   \<and> setResourceValue_String api (h\<lparr>defObject := None\<rparr>) vs n i s = (Inl NullDereference, s)
   \<and> getResourceValue_int64 api (h\<lparr>defObject := None\<rparr>) vi n i s = Inl NullDereference
   \<and> getResourceValue_float api (h\<lparr>defObject := None\<rparr>) vf n i s = Inl NullDereference
   \<and> getResourceValue_bool api (h\<lparr>defObject := None\<rparr>) vb n i s = Inl NullDereference
   \<and> getResourceValue_String api (h\<lparr>defObject := None\<rparr>) vs n i s = Inl NullDereference
   \<and> getResourceValue_buf api (h\<lparr>defObject := None\<rparr>) mem len n i s = Inl NullDereference"
  by (simp add: makeObject_def setters getters)

text \<open>
  Claim C9. A helper constructed with no definition: \<open>makeObject\<close> returns the value of an
  unassigned local, and a setter, a getter and (when an object handle was given)
  \<open>setExecuteCallback\<close> dereference the \<open>NULL\<close> definition, instead of returning
  \<open>false\<close>.
\<close>

theorem null_definition_faults:
  "makeObject testClient (mkHelper None None) (emptyStore 10)
     = (Inl UninitialisedRead, mkHelper None None, emptyStore 10)
   \<and> setResourceValue_int64 testClient (mkHelper None (Some 1)) 5 ''5851'' (- 1) switchStore
     = (Inl NullDereference, switchStore)
   \<and> getResourceValue_bool testClient (mkHelper None (Some 1)) False ''5850'' (- 1) switchStore
     = Inl NullDereference
   \<and> setExecuteCallback testClient (mkHelper None (Some 1)) 9 ''5850'' switchStore
     = (Inl NullDereference, switchStore)"
  by (simp add: makeObject_def setResourceValue_int64_def getResourceValue_bool_def
        setExecuteCallback_def mkHelper_def)

end
